theory Spec2Isabelle
  imports Complex_Main "HOL-Library.AList" "HOL-Library.Sublist"
begin

section \<open>Python values, dictionaries and failures\<close>

text \<open>
  The development embeds \<^verbatim>\<open>thinc/shims/pytorch.py\<close> (class \<^verbatim>\<open>PyTorchShim\<close>).
  A raised exception is a value of \<open>py_error\<close>; every operation returns the state it
  leaves behind together with its outcome, since a Python exception keeps the mutations
  made before it.
\<close>

datatype py_error =
    NameError string
  | AttributeError string
  | KeyError string
  | TypeError string
  | RuntimeError string
  | Raised string

text \<open>
  A Python \<^verbatim>\<open>dict\<close> is an association list in insertion order. \<^verbatim>\<open>d[k] = v\<close> is
  \<open>AList.update k v d\<close>: it overwrites the value where the key is present and appends the
  entry otherwise. \<^verbatim>\<open>d.update(other)\<close> stores the entries of \<open>other\<close> one by one.
\<close>

type_synonym ('k, 'v) dict = "('k \<times> 'v) list"

definition dict_update :: "('k, 'v) dict \<Rightarrow> ('k, 'v) dict \<Rightarrow> ('k, 'v) dict" where
  "dict_update other d = foldl (\<lambda>acc kv. AList.update (fst kv) (snd kv) acc) d other"

definition getitem :: "(string, 'v) dict \<Rightarrow> string \<Rightarrow> py_error + 'v" where
  "getitem d k = (case map_of d k of None \<Rightarrow> Inl (KeyError k) | Some v \<Rightarrow> Inr v)"

subsection \<open>Decimal rendering of the shim identifier\<close>

definition digit_char :: "nat \<Rightarrow> char" where
  "digit_char d = ''0123456789'' ! d"

fun str_nat :: "nat \<Rightarrow> string" where
  "str_nat n = (if n < 10 then [digit_char n] else str_nat (n div 10) @ [digit_char (n mod 10)])"

declare str_nat.simps [simp del]

subsection \<open>\<^verbatim>\<open>str.startswith\<close> and \<^verbatim>\<open>str.replace\<close>\<close>

definition startswith :: "string \<Rightarrow> string \<Rightarrow> bool" where
  "startswith s p = (take (length p) s = p)"

text \<open>
  \<^verbatim>\<open>s.replace(old, new)\<close> scans \<open>s\<close> from the left and replaces every non-overlapping
  occurrence of \<open>old\<close>. With an empty \<open>old\<close> Python inserts \<open>new\<close> before every character
  and at the end.
\<close>

fun replace_nonempty :: "string \<Rightarrow> string \<Rightarrow> string \<Rightarrow> string" where
  "replace_nonempty old new [] = []"
| "replace_nonempty old new (c # cs) =
     (if old \<noteq> [] \<and> startswith (c # cs) old
      then new @ replace_nonempty old new (drop (length old) (c # cs))
      else c # replace_nonempty old new cs)"

definition str_replace :: "string \<Rightarrow> string \<Rightarrow> string \<Rightarrow> string" where
  "str_replace s old new =
     (if old = [] then new @ concat (map (\<lambda>c. c # new) s) else replace_nonempty old new s)"

section \<open>The foreign framework\<close>

text \<open>
  The module's global names, as its import statements bind them (lines 1--16 of the
  source). The relative imports \<^verbatim>\<open>from ..util import ...\<close> bind the imported names only,
  never the package name.
\<close>

definition module_globals :: "string list" where
  "module_globals =
     [''Any'', ''contextlib'', ''BytesIO'', ''srsly'', ''torch'',
      ''torch2xp'', ''xp2torch'', ''convert_recursive'',
      ''get_current_ops'', ''get_array_ops'', ''ArgsKwargs'', ''Shim'', ''PyTorchShim'']"

datatype optim_cls = AdamW | Adam | SGD

text \<open>
  Evaluation of a dotted name \<^verbatim>\<open>nm.a.b\<close>: the first name is looked up among the module's
  globals (\<^verbatim>\<open>NameError\<close> when it is not bound); of the attributes only the optimizer
  classes of \<^verbatim>\<open>torch.optim\<close> are modelled.
\<close>

fun resolve_name :: "string \<Rightarrow> string list \<Rightarrow> py_error + optim_cls" where
  "resolve_name nm path =
     (if nm \<notin> set module_globals then Inl (NameError nm)
      else if nm = ''torch'' \<and> path = [''optim'', ''AdamW''] then Inr AdamW
      else if nm = ''torch'' \<and> path = [''optim'', ''Adam''] then Inr Adam
      else if nm = ''torch'' \<and> path = [''optim'', ''SGD''] then Inr SGD
      else Inl (AttributeError nm))"

datatype argval = Num real | Betas real real

text \<open>
  A foreign optimizer object: its class, the names of the parameters it was bound to when
  it was constructed, and its hyperparameter groups (the constructor makes one group
  holding the keyword arguments it was given).
\<close>

record torch_optimizer =
  opt_cls :: optim_cls
  opt_params :: "string list"
  param_groups :: "(string, argval) dict list"

datatype device = Cpu | Cuda nat

text \<open>
  The wrapped foreign model: its named parameters (\<^verbatim>\<open>state_dict()\<close>), its mode flag and
  its device. The tensor payload \<open>'a\<close> is opaque.
\<close>

record 'a torch_module =
  state_dict :: "(string, 'a) dict"
  training :: bool
  on_device :: device

text \<open>
  \<^verbatim>\<open>Module.load_state_dict(sd)\<close> with its default \<^verbatim>\<open>strict=True\<close>: every parameter whose
  name is in \<open>sd\<close> takes the value given there, and the call then raises
  \<^verbatim>\<open>RuntimeError\<close> when a name of the model is missing from \<open>sd\<close> or \<open>sd\<close> holds a name the
  model does not have.
\<close>

definition load_state_dict ::
  "'a torch_module \<Rightarrow> (string, 'a) dict \<Rightarrow> py_error option \<times> 'a torch_module" where
  "load_state_dict m sd =
     (let m' = m\<lparr>state_dict :=
                 map (\<lambda>(k, v). (k, case map_of sd k of None \<Rightarrow> v | Some w \<Rightarrow> w)) (state_dict m)\<rparr>
      in (if set (map fst sd) = set (map fst (state_dict m)) then None
          else Some (RuntimeError ''load_state_dict''), m'))"

section \<open>The generic optimizer and the shim\<close>

text \<open>
  Modelled from the spec: the registries of the generic optimizer are shared by native
  layers and shims, and their key type is not declared in the sources. Native layers use
  \<^verbatim>\<open>(id, name)\<close> tuples, shims use strings; \<open>KBytes\<close> is a \<^verbatim>\<open>bytes\<close> (or
  \<^verbatim>\<open>bytearray\<close>) key, a key that has the attribute \<^verbatim>\<open>startswith\<close> without being a
  string.
\<close>

datatype pykey = KStr string | KBytes "nat list" | KTuple nat string

text \<open>
  Modelled from the spec: the class of the generic optimizer is not among the sources.
  The record has the fields the shim reads and writes; \<open>'x\<close> is the orchestrator's
  native array type. \<open>averages = None\<close> is an optimizer whose attribute
  \<^verbatim>\<open>averages\<close> is missing or \<^verbatim>\<open>None\<close>. The counter table \<^verbatim>\<open>nr_update\<close> is a
  \<^verbatim>\<open>defaultdict(int)\<close>: reading a key it does not hold gives 0 (\<open>nr_get\<close>).
\<close>

record 'x optimizer =
  learn_rate :: real
  L2 :: real
  L2_is_weight_decay :: bool
  b1 :: real
  b2 :: real
  eps :: real
  grad_clip :: "real option"
  averages :: "(pykey, 'x) dict option"
  nr_update :: "(pykey, int) dict"

definition nr_get :: "(pykey, int) dict \<Rightarrow> pykey \<Rightarrow> int" where
  "nr_get d k = (case map_of d k of None \<Rightarrow> 0 | Some n \<Rightarrow> n)"

text \<open>
  A value a serialized envelope can hold: a structured value (the configuration blob, of
  the opaque type \<open>'c\<close>) or a byte string.
\<close>

datatype 'c msgval = MObj 'c | MBytes "nat list"

text \<open>
  Modelled from the spec: the base class \<^verbatim>\<open>Shim\<close>, which declares the attributes, is
  not among the sources. The shim holds the foreign model \<^verbatim>\<open>_model\<close>, its \<^verbatim>\<open>id\<close>
  (a counter value), its \<^verbatim>\<open>cfg\<close> and the attribute \<^verbatim>\<open>_optimizer\<close>, which is \<^verbatim>\<open>None\<close>
  or a reference into the store of foreign optimizer objects (\<open>optim_store\<close>, one entry
  per object ever constructed).
\<close>

record ('a, 'c) shim =
  model :: "'a torch_module"
  shim_id :: nat
  cfg :: "'c msgval"
  optimizer_ref :: "nat option"
  optim_store :: "torch_optimizer list"

section \<open>The optimizer adapter\<close>

text \<open>Lines 67--82 of \<^verbatim>\<open>_get_pytorch_optimizer\<close>: the class and the keyword arguments.\<close>

definition optimizer_cls_args ::
  "'x optimizer \<Rightarrow> py_error + (optim_cls \<times> (string, argval) dict)" where
  "optimizer_cls_args sgd =
     (let args = [(''lr'', Num (learn_rate sgd)), (''weight_decay'', Num (L2 sgd))] in
      if b1 sgd \<noteq> 0 \<and> b2 sgd \<noteq> 0 then
        (let args = AList.update ''betas'' (Betas (b1 sgd) (b2 sgd)) args;
             args = AList.update ''eps'' (Num (eps sgd)) args
         in case (if L2_is_weight_decay sgd
                  then resolve_name ''torch'' [''optim'', ''AdamW'']
                  else resolve_name ''torch'' [''optim'', ''Adam'']) of
              Inl e \<Rightarrow> Inl e
            | Inr cls \<Rightarrow> Inr (cls, args))
      else
        (case resolve_name ''thinc'' [''optim'', ''SGD''] of
           Inl e \<Rightarrow> Inl e
         | Inr cls \<Rightarrow>
             Inr (cls, if b2 sgd = 0 then AList.update ''momentum'' (Num (b1 sgd)) args
                       else args)))"

text \<open>
  \<^verbatim>\<open>_get_pytorch_optimizer\<close>: lines 83--88 construct the optimizer when \<^verbatim>\<open>_optimizer\<close>
  is \<^verbatim>\<open>None\<close> and update every hyperparameter group of the existing object otherwise.
  The result is the reference held by \<^verbatim>\<open>_optimizer\<close>.
\<close>

definition get_pytorch_optimizer ::
  "'x optimizer \<Rightarrow> ('a, 'c) shim \<Rightarrow> (py_error + nat) \<times> ('a, 'c) shim" where
  "get_pytorch_optimizer sgd self =
     (case optimizer_cls_args sgd of
        Inl e \<Rightarrow> (Inl e, self)
      | Inr (cls, args) \<Rightarrow>
          (case optimizer_ref self of
             None \<Rightarrow>
               (let r = length (optim_store self);
                    opt = \<lparr>opt_cls = cls,
                           opt_params = map fst (state_dict (model self)),
                           param_groups = [args]\<rparr>
                in (Inr r, self\<lparr>optimizer_ref := Some r,
                                 optim_store := optim_store self @ [opt]\<rparr>))
           | Some r \<Rightarrow>
               (let opt = optim_store self ! r;
                    opt' = opt\<lparr>param_groups := map (dict_update args) (param_groups opt)\<rparr>
                in (Inr r, self\<lparr>optim_store := (optim_store self)[r := opt']\<rparr>))))"

text \<open>
  A reference held by \<^verbatim>\<open>_optimizer\<close> points at an object of the store; the adapter
  keeps it so (lemma \<open>get_pytorch_optimizer_ref_valid\<close>).
\<close>

definition optimizer_ref_valid :: "('a, 'c) shim \<Rightarrow> bool" where
  "optimizer_ref_valid self =
     (case optimizer_ref self of None \<Rightarrow> True | Some r \<Rightarrow> r < length (optim_store self))"

section \<open>Parameter averaging\<close>

definition param_key :: "nat \<Rightarrow> string \<Rightarrow> pykey" where
  "param_key sid name = KStr (''pytorch_'' @ str_nat sid @ ''_'' @ name)"

definition default_init_steps :: int where
  "default_init_steps = 1"

text \<open>
  One round of the loop of \<^verbatim>\<open>_update_pytorch_averages\<close> (lines 110--118), on the pair of
  \<^verbatim>\<open>sgd.averages\<close> and \<^verbatim>\<open>sgd.nr_update\<close>. The conversion \<open>torch2xp\<close> and the array
  backend's \<open>update_averages\<close> are parameters; the backend updates the stored array in
  place, so its result is what the key holds afterwards.
\<close>

definition average_step ::
  "('x \<Rightarrow> 'x \<Rightarrow> int \<Rightarrow> 'x) \<Rightarrow> ('a \<Rightarrow> 'x) \<Rightarrow> nat \<Rightarrow> int \<Rightarrow>
   (pykey, 'x) dict \<times> (pykey, int) dict \<Rightarrow> string \<times> 'a \<Rightarrow>
   (pykey, 'x) dict \<times> (pykey, int) dict" where
  "average_step update_averages torch2xp sid init_steps st np =
     (let avs = fst st; nru = snd st;
          key = param_key sid (fst np);
          nru = AList.update key (nr_get nru key + 1) nru;
          xp_param = torch2xp (snd np)
      in case map_of avs key of
           Some avg \<Rightarrow> (AList.update key (update_averages avg xp_param (nr_get nru key)) avs, nru)
         | None \<Rightarrow> (AList.update key xp_param avs, AList.update key init_steps nru))"

definition update_pytorch_averages ::
  "('x \<Rightarrow> 'x \<Rightarrow> int \<Rightarrow> 'x) \<Rightarrow> ('a \<Rightarrow> 'x) \<Rightarrow> 'x optimizer \<Rightarrow> ('a, 'c) shim \<Rightarrow> int \<Rightarrow>
   'x optimizer" where
  "update_pytorch_averages update_averages torch2xp sgd self init_steps =
     (case averages sgd of
        None \<Rightarrow> sgd
      | Some avs \<Rightarrow>
          (let st = foldl (average_step update_averages torch2xp (shim_id self) init_steps)
                      (avs, nr_update sgd) (state_dict (model self))
           in sgd\<lparr>averages := Some (fst st), nr_update := snd st\<rparr>))"

text \<open>
  \<^verbatim>\<open>finish_update\<close> (lines 56--64). Gradient clipping, the optimizer's step and
  \<^verbatim>\<open>zero_grad\<close> belong to the foreign framework and are parameters; clipping and the
  step may raise.
\<close>

definition finish_update ::
  "(real \<Rightarrow> 'a torch_module \<Rightarrow> py_error + 'a torch_module) \<Rightarrow>
   (torch_optimizer \<Rightarrow> 'a torch_module \<Rightarrow> py_error + 'a torch_module) \<Rightarrow>
   ('a torch_module \<Rightarrow> 'a torch_module) \<Rightarrow>
   ('x \<Rightarrow> 'x \<Rightarrow> int \<Rightarrow> 'x) \<Rightarrow> ('a \<Rightarrow> 'x) \<Rightarrow>
   'x optimizer \<Rightarrow> ('a, 'c) shim \<Rightarrow> py_error option \<times> 'x optimizer \<times> ('a, 'c) shim" where
  "finish_update clip_grad_norm opt_step zero_grad update_averages torch2xp optimizer self =
     (case get_pytorch_optimizer optimizer self of
        (Inl e, self1) \<Rightarrow> (Some e, optimizer, self1)
      | (Inr r, self1) \<Rightarrow>
          (case (case grad_clip optimizer of
                   None \<Rightarrow> Inr (model self1)
                 | Some c \<Rightarrow> if c \<noteq> 0 then clip_grad_norm c (model self1) else Inr (model self1)) of
             Inl e \<Rightarrow> (Some e, optimizer, self1)
           | Inr m1 \<Rightarrow>
               (case opt_step (optim_store self1 ! r) m1 of
                  Inl e \<Rightarrow> (Some e, optimizer, self1\<lparr>model := m1\<rparr>)
                | Inr m2 \<Rightarrow>
                    (let self2 = self1\<lparr>model := zero_grad m2\<rparr>
                     in (None,
                         update_pytorch_averages update_averages torch2xp optimizer self2
                           default_init_steps,
                         self2)))))"

section \<open>Parameter snapshot scoping\<close>

definition key_prefix_of :: "nat \<Rightarrow> string" where
  "key_prefix_of sid = ''pytorch_'' @ str_nat sid @ ''_''"

text \<open>
  The three operations line 95 and line 96 apply to a key. \<^verbatim>\<open>hasattr(k, "startswith")\<close>
  holds for a string and for a byte string and fails for a tuple.
  \<^verbatim>\<open>k.startswith(key_prefix)\<close> and \<^verbatim>\<open>k.replace(key_prefix, "")\<close>, called with the string
  \<open>key_prefix\<close>, give a result on a string key, raise \<^verbatim>\<open>TypeError\<close> on a byte string
  (its methods take byte strings) and \<^verbatim>\<open>AttributeError\<close> on a tuple.
\<close>

fun hasattr_startswith :: "pykey \<Rightarrow> bool" where
  "hasattr_startswith (KStr k) = True"
| "hasattr_startswith (KBytes b) = True"
| "hasattr_startswith (KTuple i n) = False"

fun key_startswith :: "pykey \<Rightarrow> string \<Rightarrow> py_error + bool" where
  "key_startswith (KStr k) p = Inr (startswith k p)"
| "key_startswith (KBytes b) p = Inl (TypeError ''startswith'')"
| "key_startswith (KTuple i n) p = Inl (AttributeError ''startswith'')"

fun key_replace :: "pykey \<Rightarrow> string \<Rightarrow> string \<Rightarrow> py_error + string" where
  "key_replace (KStr k) old new = Inr (str_replace k old new)"
| "key_replace (KBytes b) old new = Inl (TypeError ''replace'')"
| "key_replace (KTuple i n) old new = Inl (AttributeError ''replace'')"

text \<open>\<^verbatim>\<open>isinstance(k, str)\<close>, for the statements about the keys.\<close>

fun is_str_key :: "pykey \<Rightarrow> bool" where
  "is_str_key (KStr k) = True"
| "is_str_key (KBytes b) = False"
| "is_str_key (KTuple i n) = False"

text \<open>
  Lines 93--96 of \<^verbatim>\<open>use_params\<close>: the state dict collected from the matching keys.
  \<open>collect_step\<close> is one round of the loop, with the short-circuit \<^verbatim>\<open>and\<close> of line 95;
  an exception raised in a round ends the loop.
\<close>

definition collect_step ::
  "('x \<Rightarrow> 'a) \<Rightarrow> string \<Rightarrow> (string, 'a) dict \<Rightarrow> pykey \<times> 'x \<Rightarrow>
   py_error + (string, 'a) dict" where
  "collect_step xp2torch key_prefix sd kv =
     (if hasattr_startswith (fst kv) then
        (case key_startswith (fst kv) key_prefix of
           Inl e \<Rightarrow> Inl e
         | Inr matches \<Rightarrow>
             if matches then
               (case key_replace (fst kv) key_prefix [] of
                  Inl e \<Rightarrow> Inl e
                | Inr name \<Rightarrow> Inr (AList.update name (xp2torch (snd kv)) sd))
             else Inr sd)
      else Inr sd)"

fun collect_loop ::
  "('x \<Rightarrow> 'a) \<Rightarrow> string \<Rightarrow> (string, 'a) dict \<Rightarrow> (pykey, 'x) dict \<Rightarrow>
   py_error + (string, 'a) dict" where
  "collect_loop xp2torch key_prefix sd [] = Inr sd"
| "collect_loop xp2torch key_prefix sd (kv # kvs) =
     (case collect_step xp2torch key_prefix sd kv of
        Inl e \<Rightarrow> Inl e
      | Inr sd' \<Rightarrow> collect_loop xp2torch key_prefix sd' kvs)"

definition collect_state_dict ::
  "('x \<Rightarrow> 'a) \<Rightarrow> string \<Rightarrow> (pykey, 'x) dict \<Rightarrow> py_error + (string, 'a) dict" where
  "collect_state_dict xp2torch key_prefix params = collect_loop xp2torch key_prefix [] params"

text \<open>
  \<^verbatim>\<open>use_params\<close> (lines 90--103) is a generator-based context manager; \<open>body\<close> is the
  block of the \<^verbatim>\<open>with\<close> statement, run at the \<^verbatim>\<open>yield\<close>. When the block raises, the
  exception is raised again at the \<^verbatim>\<open>yield\<close>, which stands in no \<^verbatim>\<open>try\<close> statement:
  the generator ends there and the statements after the \<^verbatim>\<open>yield\<close> do not run. An
  exception raised in the loop over the keys ends the call before the \<^verbatim>\<open>yield\<close>: the
  block is not run and the model is untouched.
\<close>

definition use_params ::
  "('x \<Rightarrow> 'a) \<Rightarrow> ('a, 'c) shim \<Rightarrow> (pykey, 'x) dict \<Rightarrow>
   (('a, 'c) shim \<Rightarrow> py_error option \<times> ('a, 'c) shim) \<Rightarrow>
   py_error option \<times> ('a, 'c) shim" where
  "use_params xp2torch self params body =
     (let key_prefix = key_prefix_of (shim_id self) in
      case collect_state_dict xp2torch key_prefix params of
        Inl e \<Rightarrow> (Some e, self)
      | Inr sd \<Rightarrow>
          if sd \<noteq> [] then
            (let backup = state_dict (model self)
             in case load_state_dict (model self) sd of
                  (Some e, m1) \<Rightarrow> (Some e, self\<lparr>model := m1\<rparr>)
                | (None, m1) \<Rightarrow>
                    (case body (self\<lparr>model := m1\<rparr>) of
                       (Some e, self2) \<Rightarrow> (Some e, self2)
                     | (None, self2) \<Rightarrow>
                         (case load_state_dict (model self2) backup of
                            (r, m3) \<Rightarrow> (r, self2\<lparr>model := m3\<rparr>))))
          else body self)"

section \<open>The calling-convention bridge\<close>

text \<open>
  Modelled from the spec: \<^verbatim>\<open>ArgsKwargs\<close> of \<^verbatim>\<open>thinc.types\<close> is not among the sources; it
  is an ordered sequence of positional values with a mapping of named values. A tensor
  carries its data and its attribute \<^verbatim>\<open>grad\<close>: the accumulated gradient, or \<^verbatim>\<open>None\<close>
  while nothing has been accumulated. Every tensor has the attribute, whatever it holds;
  no other value has it.
\<close>

datatype 'a pyval =
    PNone
  | PInt int
  | PTensor 'a "'a option"
  | PTuple "'a pyval list"
  | PList "'a pyval list"
  | PDict "(string \<times> 'a pyval) list"

record 'a argskwargs =
  args :: "'a pyval list"
  kwargs :: "(string \<times> 'a pyval) list"

text \<open>The two functions \<^verbatim>\<open>backprop\<close> hands to the walk (lines 50--52).\<close>

fun hasattr_grad :: "'a pyval \<Rightarrow> bool" where
  "hasattr_grad (PTensor d g) = True"
| "hasattr_grad v = False"

fun getattr_grad :: "'a pyval \<Rightarrow> 'a pyval" where
  "getattr_grad (PTensor d g) = (case g of None \<Rightarrow> PNone | Some gd \<Rightarrow> PTensor gd None)"
| "getattr_grad v = v"

text \<open>
  Modelled from the spec: \<^verbatim>\<open>convert_recursive\<close> of \<^verbatim>\<open>thinc.util\<close> is not among the
  sources. The walk goes through the payload (tuples, lists, dictionaries and the
  positional and named values of an \<^verbatim>\<open>ArgsKwargs\<close>), replaces every value the predicate
  accepts by its conversion and leaves every other leaf as it is.
\<close>

fun convert_recursive :: "('a pyval \<Rightarrow> bool) \<Rightarrow> ('a pyval \<Rightarrow> 'a pyval) \<Rightarrow> 'a pyval \<Rightarrow> 'a pyval" where
  "convert_recursive is_match convert_item (PTuple xs) =
     (if is_match (PTuple xs) then convert_item (PTuple xs)
      else PTuple (map (convert_recursive is_match convert_item) xs))"
| "convert_recursive is_match convert_item (PList xs) =
     (if is_match (PList xs) then convert_item (PList xs)
      else PList (map (convert_recursive is_match convert_item) xs))"
| "convert_recursive is_match convert_item (PDict kvs) =
     (if is_match (PDict kvs) then convert_item (PDict kvs)
      else PDict (map (\<lambda>kv. (fst kv, convert_recursive is_match convert_item (snd kv))) kvs))"
| "convert_recursive is_match convert_item obj =
     (if is_match obj then convert_item obj else obj)"


definition convert_payload ::
  "('a pyval \<Rightarrow> bool) \<Rightarrow> ('a pyval \<Rightarrow> 'a pyval) \<Rightarrow> 'a argskwargs \<Rightarrow> 'a argskwargs" where
  "convert_payload is_match convert_item inputs =
     \<lparr>args = map (convert_recursive is_match convert_item) (args inputs),
      kwargs = map (\<lambda>kv. (fst kv, convert_recursive is_match convert_item (snd kv)))
                 (kwargs inputs)\<rparr>"

text \<open>
  The closure \<^verbatim>\<open>backprop\<close> (lines 48--52). \<open>autograd_backward grads inputs\<close> is the
  foreign reverse pass: it raises, or gives the inputs payload as the pass leaves it (the
  tensors of \<open>inputs\<close> with their accumulated gradients).
\<close>

definition backprop ::
  "('a argskwargs \<Rightarrow> 'a argskwargs \<Rightarrow> py_error + 'a argskwargs) \<Rightarrow>
   'a argskwargs \<Rightarrow> 'a argskwargs \<Rightarrow> py_error + 'a argskwargs" where
  "backprop autograd_backward inputs grads =
     (case autograd_backward grads inputs of
        Inl e \<Rightarrow> Inl e
      | Inr inputs' \<Rightarrow> Inr (convert_payload hasattr_grad getattr_grad inputs'))"

text \<open>
  \<^verbatim>\<open>begin_update\<close> (lines 41--54): the model is put into training mode and called with
  the unpacked inputs (\<open>forward\<close>, the foreign model's computation); the result is the
  output with the closure.
\<close>

definition begin_update ::
  "('a torch_module \<Rightarrow> 'a argskwargs \<Rightarrow> 'a pyval) \<Rightarrow>
   ('a argskwargs \<Rightarrow> 'a argskwargs \<Rightarrow> py_error + 'a argskwargs) \<Rightarrow>
   ('a, 'c) shim \<Rightarrow> 'a argskwargs \<Rightarrow>
   ('a pyval \<times> ('a argskwargs \<Rightarrow> py_error + 'a argskwargs)) \<times> ('a, 'c) shim" where
  "begin_update forward autograd_backward self inputs =
     (let self1 = self\<lparr>model := (model self)\<lparr>training := True\<rparr>\<rparr>;
          output = forward (model self1) inputs
      in ((output, backprop autograd_backward inputs), self1))"

section \<open>Serialization\<close>

text \<open>
  \<^verbatim>\<open>to_bytes\<close> (lines 126--132). \<open>torch_save\<close> is the foreign tensor-state serializer and
  \<open>msgpack_dumps\<close> the envelope encoder; \<open>envelope\<close> is the dictionary \<^verbatim>\<open>msg\<close>.
\<close>

definition envelope :: "((string, 'a) dict \<Rightarrow> nat list) \<Rightarrow> ('a, 'c) shim \<Rightarrow> (string, 'c msgval) dict" where
  "envelope torch_save self =
     [(''config'', cfg self), (''state'', MBytes (torch_save (state_dict (model self))))]"

definition to_bytes ::
  "((string, 'a) dict \<Rightarrow> nat list) \<Rightarrow> ((string, 'c msgval) dict \<Rightarrow> nat list) \<Rightarrow>
   ('a, 'c) shim \<Rightarrow> nat list" where
  "to_bytes torch_save msgpack_dumps self = msgpack_dumps (envelope torch_save self)"

text \<open>
  \<^verbatim>\<open>from_bytes\<close> (lines 134--147). \<open>device_type\<close> is \<^verbatim>\<open>get_current_ops().device_type\<close>
  and \<open>current_device\<close> is \<^verbatim>\<open>torch.cuda.current_device()\<close>. \<open>msgpack_loads\<close> gives the
  decoded dictionary or raises; \<^verbatim>\<open>BytesIO\<close> raises \<^verbatim>\<open>TypeError\<close> on a value that is not
  a byte string.
\<close>

definition from_bytes ::
  "string \<Rightarrow> nat \<Rightarrow> (nat list \<Rightarrow> py_error + (string, 'c msgval) dict) \<Rightarrow>
   (nat list \<Rightarrow> device \<Rightarrow> py_error + (string, 'a) dict) \<Rightarrow>
   ('a, 'c) shim \<Rightarrow> nat list \<Rightarrow> py_error option \<times> ('a, 'c) shim" where
  "from_bytes device_type current_device msgpack_loads torch_load self bytes_data =
     (case msgpack_loads bytes_data of
        Inl e \<Rightarrow> (Some e, self)
      | Inr msg \<Rightarrow>
          (case getitem msg ''config'' of
             Inl e \<Rightarrow> (Some e, self)
           | Inr c \<Rightarrow>
               (let self1 = self\<lparr>cfg := c\<rparr> in
                case getitem msg ''state'' of
                  Inl e \<Rightarrow> (Some e, self1)
                | Inr (MObj v) \<Rightarrow> (Some (TypeError ''BytesIO''), self1)
                | Inr (MBytes b) \<Rightarrow>
                    (let map_location = (if device_type = ''cpu'' then Cpu else Cuda current_device)
                     in case torch_load b map_location of
                          Inl e \<Rightarrow> (Some e, self1)
                        | Inr sd \<Rightarrow>
                            (case load_state_dict (model self1) sd of
                               (Some e, m) \<Rightarrow> (Some e, self1\<lparr>model := m\<rparr>)
                             | (None, m) \<Rightarrow>
                                 (None, self1\<lparr>model := m\<lparr>on_device := map_location\<rparr>\<rparr>))))))"

section \<open>Facts about names, loading and the loops\<close>

lemma module_globals_thinc: "''thinc'' \<notin> set module_globals"
  by (simp add: module_globals_def)

lemma module_globals_torch: "''torch'' \<in> set module_globals"
  by (simp add: module_globals_def)

lemma get_pytorch_optimizer_ref_valid:
  assumes "optimizer_ref_valid self"
  shows "optimizer_ref_valid (snd (get_pytorch_optimizer sgd self))"
  using assms
  by (auto simp: optimizer_ref_valid_def get_pytorch_optimizer_def Let_def
      split: sum.splits option.splits prod.splits)

lemma key_prefix_of_0: "key_prefix_of 0 = ''pytorch_0_''"
  by (simp add: key_prefix_of_def str_nat.simps digit_char_def)

lemma key_prefix_of_1: "key_prefix_of (Suc 0) = ''pytorch_1_''"
  by (simp add: key_prefix_of_def str_nat.simps digit_char_def)

lemma param_key_0: "param_key 0 name = KStr (''pytorch_0_'' @ name)"
  by (simp add: param_key_def str_nat.simps digit_char_def)

lemma load_state_dict_ok:
  assumes "set (map fst sd) = set (map fst (state_dict m))"
  shows "fst (load_state_dict m sd) = None"
    and "map_of (state_dict (snd (load_state_dict m sd))) = map_of sd"
    and "map fst (state_dict (snd (load_state_dict m sd))) = map fst (state_dict m)"
    and "training (snd (load_state_dict m sd)) = training m"
proof -
  show "fst (load_state_dict m sd) = None"
    using assms by (simp add: load_state_dict_def Let_def)
  show "map fst (state_dict (snd (load_state_dict m sd))) = map fst (state_dict m)"
    by (simp add: load_state_dict_def Let_def comp_def case_prod_unfold)
  show "training (snd (load_state_dict m sd)) = training m"
    by (simp add: load_state_dict_def Let_def)
  show "map_of (state_dict (snd (load_state_dict m sd))) = map_of sd"
  proof
    fix k
    have *: "map_of (map (\<lambda>(k, v). (k, f k v)) xs) k = (case map_of xs k of None \<Rightarrow> None | Some v \<Rightarrow> Some (f k v))" for f :: "string \<Rightarrow> 'a \<Rightarrow> 'a" and xs
      by (induction xs) auto
    show "map_of (state_dict (snd (load_state_dict m sd))) k = map_of sd k"
    proof (cases "map_of sd k")
      case None
      then have "k \<notin> fst ` set (state_dict m)"
        using assms by (metis map_of_eq_None_iff set_map)
      then have "map_of (state_dict m) k = None"
        by (simp add: map_of_eq_None_iff)
      then show ?thesis
        using None by (simp add: load_state_dict_def Let_def *)
    next
      case (Some w)
      then have "k \<in> fst ` set (state_dict m)"
        using assms by (metis map_of_eq_None_iff option.distinct(1) set_map)
      then obtain v where "map_of (state_dict m) k = Some v"
        by (metis map_of_eq_None_iff not_Some_eq)
      then show ?thesis
        using Some by (simp add: load_state_dict_def Let_def *)
    qed
  qed
qed

lemma load_state_dict_None:
  "fst (load_state_dict m sd) = None \<Longrightarrow> set (map fst sd) = set (map fst (state_dict m))"
  by (simp add: load_state_dict_def Let_def split: if_splits)

lemma param_key_eq [simp]: "param_key sid n = param_key sid m \<longleftrightarrow> n = m"
  by (simp add: param_key_def)

lemma nr_get_cong: "map_of d k = map_of d' k \<Longrightarrow> nr_get d k = nr_get d' k"
  by (simp add: nr_get_def)

lemma average_step_other:
  assumes "key \<noteq> param_key sid (fst np)"
  shows "map_of (fst (average_step upd t2x sid init st np)) key = map_of (fst st) key"
    and "map_of (snd (average_step upd t2x sid init st np)) key = map_of (snd st) key"
  using assms by (auto simp: average_step_def Let_def update_conv' split: option.splits)

lemma average_loop_other:
  assumes "key \<notin> param_key sid ` fst ` set nps"
  shows "map_of (fst (foldl (average_step upd t2x sid init) st nps)) key = map_of (fst st) key
       \<and> map_of (snd (foldl (average_step upd t2x sid init) st nps)) key = map_of (snd st) key"
  using assms
proof (induction nps arbitrary: st)
  case Nil
  then show ?case by simp
next
  case (Cons np nps)
  then have k: "key \<noteq> param_key sid (fst np)" and r: "key \<notin> param_key sid ` fst ` set nps"
    by auto
  show ?case
    using Cons.IH [OF r, of "average_step upd t2x sid init st np"]
    by (simp add: average_step_other [OF k])
qed

lemma average_step_same:
  "map_of (fst (average_step upd t2x sid init st (n, p))) (param_key sid n) =
     Some (case map_of (fst st) (param_key sid n) of
             None \<Rightarrow> t2x p
           | Some a \<Rightarrow> upd a (t2x p) (nr_get (snd st) (param_key sid n) + 1))"
  "nr_get (snd (average_step upd t2x sid init st (n, p))) (param_key sid n) =
     (case map_of (fst st) (param_key sid n) of
        None \<Rightarrow> init
      | Some a \<Rightarrow> nr_get (snd st) (param_key sid n) + 1)"
  by (auto simp: average_step_def Let_def update_conv' nr_get_def split: option.splits)

lemma average_loop_at:
  assumes d: "distinct (map fst nps)" and m: "(n, p) \<in> set nps"
  shows "map_of (fst (foldl (average_step upd t2x sid init) st nps)) (param_key sid n) =
           Some (case map_of (fst st) (param_key sid n) of
                   None \<Rightarrow> t2x p
                 | Some a \<Rightarrow> upd a (t2x p) (nr_get (snd st) (param_key sid n) + 1))"
    and "nr_get (snd (foldl (average_step upd t2x sid init) st nps)) (param_key sid n) =
           (case map_of (fst st) (param_key sid n) of
              None \<Rightarrow> init
            | Some a \<Rightarrow> nr_get (snd st) (param_key sid n) + 1)"
proof -
  from m obtain pre post where nps: "nps = pre @ (n, p) # post"
    by (auto dest: split_list)
  with d have "n \<notin> fst ` set pre" and "n \<notin> fst ` set post"
    by auto
  then have pre: "param_key sid n \<notin> param_key sid ` fst ` set pre"
    and post: "param_key sid n \<notin> param_key sid ` fst ` set post"
    by force+
  let ?f = "average_step upd t2x sid init"
  let ?s1 = "foldl ?f st pre"
  have s1: "map_of (fst ?s1) (param_key sid n) = map_of (fst st) (param_key sid n)"
    "nr_get (snd ?s1) (param_key sid n) = nr_get (snd st) (param_key sid n)"
    using average_loop_other [OF pre, of upd t2x init st] by (auto intro: nr_get_cong)
  have fold: "foldl ?f st nps = foldl ?f (?f ?s1 (n, p)) post"
    by (simp add: nps)
  have post': "map_of (fst (foldl ?f st nps)) (param_key sid n) =
                 map_of (fst (?f ?s1 (n, p))) (param_key sid n)"
    "nr_get (snd (foldl ?f st nps)) (param_key sid n) =
       nr_get (snd (?f ?s1 (n, p))) (param_key sid n)"
    unfolding fold using average_loop_other [OF post, of upd t2x init "?f ?s1 (n, p)"]
    by (auto intro: nr_get_cong)
  show "map_of (fst (foldl ?f st nps)) (param_key sid n) =
           Some (case map_of (fst st) (param_key sid n) of
                   None \<Rightarrow> t2x p
                 | Some a \<Rightarrow> upd a (t2x p) (nr_get (snd st) (param_key sid n) + 1))"
    by (simp only: post' average_step_same s1)
  show "nr_get (snd (foldl ?f st nps)) (param_key sid n) =
           (case map_of (fst st) (param_key sid n) of
              None \<Rightarrow> init
            | Some a \<Rightarrow> nr_get (snd st) (param_key sid n) + 1)"
    by (simp only: post' average_step_same s1)
qed

lemma startswith_prefix: "startswith s p \<longleftrightarrow> prefix p s"
proof
  assume "startswith s p"
  then have "take (length p) s = p" by (simp add: startswith_def)
  then show "prefix p s" by (metis take_is_prefix)
next
  assume "prefix p s"
  then show "startswith s p" by (auto simp: startswith_def prefix_def)
qed

lemma key_prefix_nonempty: "key_prefix_of sid \<noteq> []"
  by (simp add: key_prefix_of_def)

lemma replace_nonempty_strip:
  assumes "p \<noteq> []"
  shows "replace_nonempty p [] (p @ s) = replace_nonempty p [] s"
proof -
  from assms obtain c cs where p: "p = c # cs" by (cases p) auto
  have "replace_nonempty p [] (c # (cs @ s)) = replace_nonempty p [] (drop (length p) (c # (cs @ s)))"
    by (simp add: startswith_def p)
  then show ?thesis by (simp add: p)
qed

lemma replace_nonempty_length: "length (replace_nonempty p [] s) \<le> length s"
proof (induction p "[] :: string" s rule: replace_nonempty.induct)
  case (1 old)
  then show ?case by simp
next
  case (2 old c cs)
  then show ?case by (auto simp: le_Suc_eq) 
qed

lemma replace_nonempty_shrinks:
  assumes "p \<noteq> []" and "sublist p s"
  shows "length (replace_nonempty p [] s) < length s"
  using assms
proof (induction s)
  case Nil
  then show ?case by simp
next
  case (Cons c cs)
  show ?case
  proof (cases "prefix p (c # cs)")
    case True
    have "length (replace_nonempty p [] (drop (length p) (c # cs))) \<le> length (c # cs) - length p"
      using replace_nonempty_length [of p "drop (length p) (c # cs)"] by simp
    moreover have "Suc 0 \<le> length p" using Cons.prems by (cases p) simp_all
    ultimately have "length (replace_nonempty p [] (drop (length p) (c # cs))) < length (c # cs)"
      by simp
    then show ?thesis
      using True Cons.prems by (simp add: startswith_prefix)
  next
    case False
    then have "sublist p cs"
      using Cons.prems by (simp add: sublist_Cons_right)
    then have "length (replace_nonempty p [] cs) < length cs"
      using Cons.IH Cons.prems by simp
    then show ?thesis
      using False by (simp add: startswith_prefix)
  qed
qed

lemma replace_nonempty_absent:
  assumes "\<not> sublist p s"
  shows "replace_nonempty p [] s = s"
  using assms
proof (induction s)
  case Nil
  then show ?case by simp
next
  case (Cons c cs)
  then have "\<not> prefix p (c # cs)" and "\<not> sublist p cs"
    by (auto simp: sublist_Cons_right)
  then show ?case
    using Cons.IH by (simp add: startswith_prefix)
qed

lemma str_replace_prefixed:
  assumes "p \<noteq> []"
  shows "str_replace (p @ name) p [] = str_replace name p []"
    and "str_replace (p @ name) p [] = name \<longleftrightarrow> \<not> sublist p name"
proof -
  show eq: "str_replace (p @ name) p [] = str_replace name p []"
    using assms by (simp add: str_replace_def replace_nonempty_strip)
  show "str_replace (p @ name) p [] = name \<longleftrightarrow> \<not> sublist p name"
  proof
    assume "str_replace (p @ name) p [] = name"
    then have "length (replace_nonempty p [] name) = length name"
      using assms by (simp add: eq) (simp add: str_replace_def)
    then show "\<not> sublist p name"
      using replace_nonempty_shrinks [OF assms, of name] by auto
  next
    assume "\<not> sublist p name"
    then show "str_replace (p @ name) p [] = name"
      using assms by (simp add: eq) (simp add: str_replace_def replace_nonempty_absent)
  qed
qed

lemma collect_step_no_attr:
  "\<not> hasattr_startswith (fst kv) \<Longrightarrow> collect_step x2t p sd kv = Inr sd"
  by (simp add: collect_step_def)

lemma collect_step_str:
  "fst kv = KStr k \<Longrightarrow>
   collect_step x2t p sd kv =
     Inr (if startswith k p then AList.update (str_replace k p []) (x2t (snd kv)) sd else sd)"
  by (simp add: collect_step_def)

lemma collect_step_bytes:
  "fst kv = KBytes b \<Longrightarrow> collect_step x2t p sd kv = Inl (TypeError ''startswith'')"
  by (simp add: collect_step_def)

lemma collect_loop_raises:
  assumes "\<exists>kv \<in> set params. hasattr_startswith (fst kv) \<and> \<not> is_str_key (fst kv)"
  shows "collect_loop x2t p sd params = Inl (TypeError ''startswith'')"
  using assms
proof (induction params arbitrary: sd)
  case Nil
  then show ?case by simp
next
  case (Cons kv params)
  show ?case
  proof (cases "fst kv")
    case (KStr k)
    then have "\<exists>kv \<in> set params. hasattr_startswith (fst kv) \<and> \<not> is_str_key (fst kv)"
      using Cons.prems by auto
    then show ?thesis
      using Cons.IH by (simp add: collect_step_str [OF KStr])
  next
    case (KBytes b)
    then show ?thesis by (simp add: collect_step_bytes)
  next
    case (KTuple i n)
    then have "\<exists>kv \<in> set params. hasattr_startswith (fst kv) \<and> \<not> is_str_key (fst kv)"
      using Cons.prems by auto
    then show ?thesis
      using Cons.IH KTuple by (simp add: collect_step_no_attr)
  qed
qed

lemma collect_loop_collects:
  assumes "\<forall>kv \<in> set params. hasattr_startswith (fst kv) \<longrightarrow> is_str_key (fst kv)"
  shows "\<exists>sd'. collect_loop x2t p sd params = Inr sd'
           \<and> collect_loop x2t p sd (filter (\<lambda>kv. is_str_key (fst kv)) params) = Inr sd'
           \<and> fst ` set sd' =
               fst ` set sd \<union>
               (\<lambda>k. str_replace k p []) ` {k. KStr k \<in> fst ` set params \<and> startswith k p}"
  using assms
proof (induction params arbitrary: sd)
  case Nil
  then show ?case by simp
next
  case (Cons kv params)
  then have rest: "\<forall>kv \<in> set params. hasattr_startswith (fst kv) \<longrightarrow> is_str_key (fst kv)"
    by simp
  show ?case
  proof (cases "fst kv")
    case (KStr k)
    let ?sd1 = "if startswith k p then AList.update (str_replace k p []) (x2t (snd kv)) sd else sd"
    from Cons.IH [OF rest, of ?sd1] obtain sd' where
      l: "collect_loop x2t p ?sd1 params = Inr sd'"
      and f: "collect_loop x2t p ?sd1 (filter (\<lambda>kv. is_str_key (fst kv)) params) = Inr sd'"
      and n: "fst ` set sd' =
                fst ` set ?sd1 \<union>
                (\<lambda>k. str_replace k p []) ` {k. KStr k \<in> fst ` set params \<and> startswith k p}"
      by blast
    have keys: "{k'. KStr k' \<in> fst ` set (kv # params) \<and> startswith k' p} =
                  (if startswith k p then {k} else {}) \<union>
                  {k'. KStr k' \<in> fst ` set params \<and> startswith k' p}"
      using KStr by auto
    have "fst ` set sd' =
            fst ` set sd \<union>
            (\<lambda>k. str_replace k p []) ` {k. KStr k \<in> fst ` set (kv # params) \<and> startswith k p}"
      unfolding n keys by (auto simp: dom_update)
    then show ?thesis
      using l f KStr by (simp add: collect_step_str [OF KStr])
  next
    case (KBytes b)
    then show ?thesis using Cons.prems by simp
  next
    case (KTuple i n)
    have keys: "{k'. KStr k' \<in> fst ` set (kv # params) \<and> startswith k' p} =
                  {k'. KStr k' \<in> fst ` set params \<and> startswith k' p}"
      using KTuple by auto
    show ?thesis
      using Cons.IH [OF rest, of sd] KTuple
      by (simp add: collect_step_no_attr keys)
  qed
qed

lemma collect_single:
  "collect_state_dict x2t p [(KStr (p @ name), v)] = Inr [(str_replace (p @ name) p [], x2t v)]"
  by (simp add: collect_state_dict_def collect_step_def startswith_def)


text \<open>
  On the normal exit of the block \<^verbatim>\<open>use_params\<close> does restore: when some key matched
  and the whole scope ends without an exception, the model holds the values it held
  before.
\<close>

lemma use_params_normal_exit_restores:
  assumes sd: "collect_state_dict x2t (key_prefix_of (shim_id self)) params = Inr sd"
    and ne: "sd \<noteq> []"
    and ok: "use_params x2t self params body = (None, self')"
  shows "map_of (state_dict (model self')) = map_of (state_dict (model self))"
proof -
  obtain r1 m1 where l1: "load_state_dict (model self) sd = (r1, m1)"
    by (cases "load_state_dict (model self) sd")
  obtain rb self2 where b: "body (self\<lparr>model := m1\<rparr>) = (rb, self2)"
    by (cases "body (self\<lparr>model := m1\<rparr>)")
  obtain r3 m3 where l3: "load_state_dict (model self2) (state_dict (model self)) = (r3, m3)"
    by (cases "load_state_dict (model self2) (state_dict (model self))")
  from ok sd ne l1 b l3 have r3: "r3 = None" and s': "self' = self2\<lparr>model := m3\<rparr>"
    by (auto simp: use_params_def Let_def split: option.splits)
  from r3 l3 have "set (map fst (state_dict (model self))) = set (map fst (state_dict (model self2)))"
    using load_state_dict_None [of "model self2" "state_dict (model self)"] by simp
  then have "map_of (state_dict m3) = map_of (state_dict (model self))"
    using load_state_dict_ok(2) [of "state_dict (model self)" "model self2"] l3 by simp
  then show ?thesis by (simp add: s')
qed

text \<open>
  On the Adam branch the optimizer is a lazy singleton: the first call constructs the one
  object, the second call updates its hyperparameter group in place, and the class stays
  the one chosen at construction.
\<close>

lemma lazy_singleton_adam:
  fixes sgd1 sgd2 :: "'x optimizer" and self :: "('a, 'c) shim"
  assumes "b1 sgd1 \<noteq> 0" "b2 sgd1 \<noteq> 0" "b1 sgd2 \<noteq> 0" "b2 sgd2 \<noteq> 0"
    and "optimizer_ref self = None" "optim_store self = []"
  shows "\<exists>s1 s2. get_pytorch_optimizer sgd1 self = (Inr 0, s1)
           \<and> get_pytorch_optimizer sgd2 s1 = (Inr 0, s2)
           \<and> length (optim_store s2) = 1 \<and> optimizer_ref s2 = Some 0
           \<and> opt_cls (optim_store s2 ! 0) = (if L2_is_weight_decay sgd1 then AdamW else Adam)
           \<and> opt_params (optim_store s2 ! 0) = map fst (state_dict (model self))
           \<and> param_groups (optim_store s2 ! 0) =
               [[(''lr'', Num (learn_rate sgd2)), (''weight_decay'', Num (L2 sgd2)),
                 (''betas'', Betas (b1 sgd2) (b2 sgd2)), (''eps'', Num (eps sgd2))]]"
  using assms
  by (simp add: get_pytorch_optimizer_def optimizer_cls_args_def module_globals_def Let_def
      dict_update_def)


section \<open>Parameter snapshot scoping: the failure path\<close>

text \<open>
  C1 (\<^verbatim>\<open>use_params\<close>, scoped restore on every exit path). The claim asks that the
  parameters of the foreign model are back at their values from before the scope on
  every exit, also when the block raises. The source restores after the \<^verbatim>\<open>yield\<close>
  only: for a model with \<open>w = 1\<close>, the mapping \<open>pytorch_0_w \<mapsto> 2\<close> and a block that
  raises, the exception leaves the scope and the model keeps \<open>w = 2\<close>.
\<close>

theorem use_params_failure_keeps_substitute:
  "use_params (\<lambda>x. x)
     \<lparr>model = \<lparr>state_dict = [(''w'', 1 :: int)], training = True, on_device = Cpu\<rparr>,
      shim_id = 0, cfg = MObj (), optimizer_ref = None, optim_store = []\<rparr>
     [(KStr ''pytorch_0_w'', 2)]
     (\<lambda>s. (Some (Raised ''boom''), s))
   = (Some (Raised ''boom''),
      \<lparr>model = \<lparr>state_dict = [(''w'', 2)], training = True, on_device = Cpu\<rparr>,
       shim_id = 0, cfg = MObj (), optimizer_ref = None, optim_store = []\<rparr>)"
  by (simp add: use_params_def key_prefix_of_0 collect_state_dict_def collect_step_def
      startswith_def str_replace_def load_state_dict_def)

section \<open>The optimizer adapter: selection and construction\<close>

text \<open>
  C2 (momentum-SGD selection). For an optimizer with \<open>b1 = 0.9\<close>, \<open>b2 = 0\<close> and
  \<open>L2 = 0\<close> the claim asks that \<^verbatim>\<open>finish_update\<close> succeeds and constructs a plain
  gradient-descent optimizer with momentum 0.9. The source names the class
  \<^verbatim>\<open>thinc.optim.SGD\<close>, and \<^verbatim>\<open>thinc\<close> is not a name of the module: the selection raises
  \<^verbatim>\<open>NameError\<close>, and \<^verbatim>\<open>finish_update\<close> ends with it, the shim and the optimizer
  untouched.
\<close>

theorem sgd_branch_name_error:
  "optimizer_cls_args
     \<lparr>learn_rate = 0.001, L2 = 0, L2_is_weight_decay = False, b1 = 0.9, b2 = 0,
      eps = 1 / 10 ^ 8, grad_clip = None, averages = (None :: (pykey, int) dict option),
      nr_update = []\<rparr>
   = Inl (NameError ''thinc'')
   \<and> finish_update (\<lambda>c m. Inr m) (\<lambda>opt m. Inr m) (\<lambda>m. m) (\<lambda>avg p n. avg) (\<lambda>t. t)
     \<lparr>learn_rate = 0.001, L2 = 0, L2_is_weight_decay = False, b1 = 0.9, b2 = 0,
      eps = 1 / 10 ^ 8, grad_clip = None, averages = (None :: (pykey, int) dict option),
      nr_update = []\<rparr>
     \<lparr>model = \<lparr>state_dict = [(''w'', 1 :: int)], training = True, on_device = Cpu\<rparr>,
      shim_id = 0, cfg = MObj (), optimizer_ref = None, optim_store = []\<rparr>
   = (Some (NameError ''thinc''),
      \<lparr>learn_rate = 0.001, L2 = 0, L2_is_weight_decay = False, b1 = 0.9, b2 = 0,
       eps = 1 / 10 ^ 8, grad_clip = None, averages = None, nr_update = []\<rparr>,
      \<lparr>model = \<lparr>state_dict = [(''w'', 1)], training = True, on_device = Cpu\<rparr>,
       shim_id = 0, cfg = MObj (), optimizer_ref = None, optim_store = []\<rparr>)"
  by (simp add: optimizer_cls_args_def finish_update_def get_pytorch_optimizer_def
      module_globals_thinc)

section \<open>The calling-convention bridge\<close>

text \<open>
  C3 (\<^verbatim>\<open>begin_update\<close>, normalizing a bare output). The claim, like the docstring of
  \<^verbatim>\<open>begin_update\<close>, asks that a single value returned by the foreign model is turned
  into a one-element tuple. The source returns the model's output as it is: for a model
  whose output is one tensor, the output of \<^verbatim>\<open>begin_update\<close> is that tensor and not
  the tuple holding it.
\<close>

theorem begin_update_returns_bare_output:
  "fst (fst (begin_update (\<lambda>m i. PTensor 7 None) (\<lambda>g i. Inr i)
     \<lparr>model = \<lparr>state_dict = [(''w'', 1 :: int)], training = False, on_device = Cpu\<rparr>,
      shim_id = 0, cfg = MObj (), optimizer_ref = None, optim_store = []\<rparr>
     \<lparr>args = [PTensor 3 None], kwargs = []\<rparr>)) = PTensor 7 None
   \<and> PTensor 7 None \<noteq> PTuple [PTensor (7 :: int) None]"
  by (simp add: begin_update_def)



section \<open>The optimizer adapter: the lazy singleton\<close>

text \<open>
  C5 (lazy optimizer singleton). The claim asks that any sequence of \<^verbatim>\<open>finish_update\<close>
  calls constructs exactly one foreign optimizer, on the first call. With \<open>b2 = 0\<close>
  every call raises \<^verbatim>\<open>NameError\<close> before line 83 is reached: after two calls with
  different learning rates no optimizer object exists and \<^verbatim>\<open>_optimizer\<close> is still
  \<^verbatim>\<open>None\<close>.
\<close>

theorem sgd_twice_constructs_nothing:
  "(let sgd1 = \<lparr>learn_rate = 0.001, L2 = 0, L2_is_weight_decay = False, b1 = 0.9, b2 = 0,
                eps = 1 / 10 ^ 8, grad_clip = None,
                averages = (None :: (pykey, int) dict option), nr_update = []\<rparr>;
        sgd2 = sgd1\<lparr>learn_rate := 0.01\<rparr>;
        self0 = \<lparr>model = \<lparr>state_dict = [(''w'', 1 :: int)], training = True, on_device = Cpu\<rparr>,
                 shim_id = 0, cfg = MObj (), optimizer_ref = None, optim_store = []\<rparr>;
        r1 = finish_update (\<lambda>c m. Inr m) (\<lambda>opt m. Inr m) (\<lambda>m. m) (\<lambda>avg p n. avg) (\<lambda>t. t)
               sgd1 self0;
        r2 = finish_update (\<lambda>c m. Inr m) (\<lambda>opt m. Inr m) (\<lambda>m. m) (\<lambda>avg p n. avg) (\<lambda>t. t)
               sgd2 (snd (snd r1))
    in fst r1 = Some (NameError ''thinc'') \<and> fst r2 = Some (NameError ''thinc'')
       \<and> optim_store (snd (snd r2)) = [] \<and> optimizer_ref (snd (snd r2)) = None)"
  by (simp add: Let_def optimizer_cls_args_def finish_update_def get_pytorch_optimizer_def
      module_globals_thinc)

section \<open>Serialization\<close>

text \<open>
  C6 (round trip). Where the envelope encoding and the foreign tensor-state encoding give
  back what they were given, \<^verbatim>\<open>from_bytes\<close> applied to \<^verbatim>\<open>to_bytes\<close> of a shim \<open>S\<close>, on a
  shim whose model has the parameter names of \<open>S\<close>, succeeds and leaves the
  configuration of \<open>S\<close> and, under every parameter name, the value \<open>S\<close> holds there; the
  envelope has exactly the two fields \<^verbatim>\<open>config\<close> and \<^verbatim>\<open>state\<close>.
\<close>

theorem from_bytes_to_bytes_roundtrip:
  fixes S T :: "('a, 'c) shim"
  assumes mp: "msgpack_loads (msgpack_dumps (envelope torch_save S)) = Inr (envelope torch_save S)"
    and tl: "torch_load (torch_save (state_dict (model S)))
               (if device_type = ''cpu'' then Cpu else Cuda current_device)
             = Inr (state_dict (model S))"
    and names: "set (map fst (state_dict (model T))) = set (map fst (state_dict (model S)))"
  shows "fst (from_bytes device_type current_device msgpack_loads torch_load T
               (to_bytes torch_save msgpack_dumps S)) = None
    \<and> cfg (snd (from_bytes device_type current_device msgpack_loads torch_load T
               (to_bytes torch_save msgpack_dumps S))) = cfg S
    \<and> map_of (state_dict (model (snd (from_bytes device_type current_device msgpack_loads
               torch_load T (to_bytes torch_save msgpack_dumps S)))))
        = map_of (state_dict (model S))
    \<and> map fst (envelope torch_save S) = [''config'', ''state'']"
proof -
  let ?sd = "state_dict (model S)"
  let ?loc = "if device_type = ''cpu'' then Cpu else Cuda current_device"
  obtain r m where l: "load_state_dict (model T) ?sd = (r, m)"
    by (cases "load_state_dict (model T) ?sd")
  have r: "r = None" and m: "map_of (state_dict m) = map_of ?sd"
    using load_state_dict_ok [of ?sd "model T"] names l by simp_all
  have "from_bytes device_type current_device msgpack_loads torch_load T
          (to_bytes torch_save msgpack_dumps S)
        = (None, T\<lparr>cfg := cfg S, model := m\<lparr>on_device := ?loc\<rparr>\<rparr>)"
    using mp tl l r
    by (simp add: from_bytes_def to_bytes_def envelope_def getitem_def Let_def)
  then show ?thesis
    by (simp add: m envelope_def)
qed

theorem from_bytes_to_bytes_roundtrip_witness:
  "fst (from_bytes ''cpu'' 0
          (\<lambda>b. Inr [(''config'', MObj (3 :: nat)), (''state'', MBytes [7, 8])])
          (\<lambda>b loc. Inr [(''w'', 5 :: int)])
          \<lparr>model = \<lparr>state_dict = [(''w'', 0)], training = True, on_device = Cpu\<rparr>,
           shim_id = 1, cfg = MObj 0, optimizer_ref = None, optim_store = []\<rparr>
          (to_bytes (\<lambda>sd. [7, 8]) (\<lambda>msg. [1])
             \<lparr>model = \<lparr>state_dict = [(''w'', 5 :: int)], training = True, on_device = Cpu\<rparr>,
              shim_id = 0, cfg = MObj (3 :: nat), optimizer_ref = None, optim_store = []\<rparr>)) = None
   \<and> cfg (snd (from_bytes ''cpu'' 0
          (\<lambda>b. Inr [(''config'', MObj (3 :: nat)), (''state'', MBytes [7, 8])])
          (\<lambda>b loc. Inr [(''w'', 5 :: int)])
          \<lparr>model = \<lparr>state_dict = [(''w'', 0)], training = True, on_device = Cpu\<rparr>,
           shim_id = 1, cfg = MObj 0, optimizer_ref = None, optim_store = []\<rparr>
          (to_bytes (\<lambda>sd. [7, 8]) (\<lambda>msg. [1])
             \<lparr>model = \<lparr>state_dict = [(''w'', 5 :: int)], training = True, on_device = Cpu\<rparr>,
              shim_id = 0, cfg = MObj (3 :: nat), optimizer_ref = None, optim_store = []\<rparr>)))
       = MObj 3
   \<and> state_dict (model (snd (from_bytes ''cpu'' 0
          (\<lambda>b. Inr [(''config'', MObj (3 :: nat)), (''state'', MBytes [7, 8])])
          (\<lambda>b loc. Inr [(''w'', 5 :: int)])
          \<lparr>model = \<lparr>state_dict = [(''w'', 0)], training = True, on_device = Cpu\<rparr>,
           shim_id = 1, cfg = MObj 0, optimizer_ref = None, optim_store = []\<rparr>
          (to_bytes (\<lambda>sd. [7, 8]) (\<lambda>msg. [1])
             \<lparr>model = \<lparr>state_dict = [(''w'', 5 :: int)], training = True, on_device = Cpu\<rparr>,
              shim_id = 0, cfg = MObj (3 :: nat), optimizer_ref = None, optim_store = []\<rparr>))))
       = [(''w'', 5)]"
proof -
  have "state_dict (model (snd (from_bytes ''cpu'' 0
          (\<lambda>b. Inr [(''config'', MObj (3 :: nat)), (''state'', MBytes [7, 8])])
          (\<lambda>b loc. Inr [(''w'', 5 :: int)])
          \<lparr>model = \<lparr>state_dict = [(''w'', 0)], training = True, on_device = Cpu\<rparr>,
           shim_id = 1, cfg = MObj 0, optimizer_ref = None, optim_store = []\<rparr>
          (to_bytes (\<lambda>sd. [7, 8]) (\<lambda>msg. [1])
             \<lparr>model = \<lparr>state_dict = [(''w'', 5 :: int)], training = True, on_device = Cpu\<rparr>,
              shim_id = 0, cfg = MObj (3 :: nat), optimizer_ref = None, optim_store = []\<rparr>))))
       = [(''w'', 5)]"
    by (simp add: from_bytes_def to_bytes_def getitem_def load_state_dict_def)
  then show ?thesis
    using from_bytes_to_bytes_roundtrip
      [of "\<lambda>b. Inr [(''config'', MObj (3 :: nat)), (''state'', MBytes [7, 8])]"
          "\<lambda>msg. [1]" "\<lambda>sd. [7, 8]"
          "\<lparr>model = \<lparr>state_dict = [(''w'', 5 :: int)], training = True, on_device = Cpu\<rparr>,
            shim_id = 0, cfg = MObj 3, optimizer_ref = None, optim_store = []\<rparr>"
          "\<lambda>b loc. Inr [(''w'', 5 :: int)]" "''cpu''" 0
          "\<lparr>model = \<lparr>state_dict = [(''w'', 0)], training = True, on_device = Cpu\<rparr>,
            shim_id = 1, cfg = MObj 0, optimizer_ref = None, optim_store = []\<rparr>"]
    by (simp add: envelope_def)
qed

section \<open>Parameter averaging\<close>

text \<open>
  C7 (\<^verbatim>\<open>_update_pytorch_averages\<close>). Without an averages store the operation changes
  nothing. With one, for every named parameter of the model: when its key has no
  average yet, the average becomes the converted parameter value and the counter the
  starting value (1 by default); when it has one, the counter goes up by one and the
  average becomes the backend's moving average of the old average and the parameter
  value at the incremented count.
\<close>

theorem update_averages_per_key:
  fixes sgd :: "'x optimizer" and self :: "('a, 'c) shim"
  assumes "distinct (map fst (state_dict (model self)))"
    and "(name, param) \<in> set (state_dict (model self))"
  shows "default_init_steps = 1
    \<and> (averages sgd = None \<longrightarrow> update_pytorch_averages upd t2x sgd self init_steps = sgd)
    \<and> (\<forall>avs. averages sgd = Some avs \<longrightarrow>
         (\<exists>avs'. averages (update_pytorch_averages upd t2x sgd self init_steps) = Some avs'
            \<and> (case map_of avs (param_key (shim_id self) name) of
                 None \<Rightarrow>
                   map_of avs' (param_key (shim_id self) name) = Some (t2x param)
                   \<and> nr_get (nr_update (update_pytorch_averages upd t2x sgd self init_steps))
                       (param_key (shim_id self) name) = init_steps
               | Some a \<Rightarrow>
                   nr_get (nr_update (update_pytorch_averages upd t2x sgd self init_steps))
                     (param_key (shim_id self) name)
                     = nr_get (nr_update sgd) (param_key (shim_id self) name) + 1
                   \<and> map_of avs' (param_key (shim_id self) name)
                     = Some (upd a (t2x param)
                         (nr_get (nr_update sgd) (param_key (shim_id self) name) + 1)))))"
  using average_loop_at [OF assms, of upd t2x "shim_id self" init_steps]
  by (auto simp: update_pytorch_averages_def default_init_steps_def Let_def split: option.splits)

theorem update_averages_per_key_witness:
  "distinct (map fst [(''w'', 4 :: int)])
   \<and> (\<exists>avs'. averages (update_pytorch_averages (\<lambda>avg p n. avg + (p - avg) div n) (\<lambda>t. t)
          \<lparr>learn_rate = 0.001, L2 = 0, L2_is_weight_decay = False, b1 = 0.9, b2 = 0.999,
           eps = 1 / 10 ^ 8, grad_clip = None,
           averages = Some [(KStr ''pytorch_0_w'', 10 :: int)],
           nr_update = [(KStr ''pytorch_0_w'', 1)]\<rparr>
          \<lparr>model = \<lparr>state_dict = [(''w'', 4 :: int)], training = True, on_device = Cpu\<rparr>,
           shim_id = 0, cfg = MObj (), optimizer_ref = None, optim_store = []\<rparr> 1) = Some avs'
        \<and> map_of avs' (KStr ''pytorch_0_w'') = Some 7)
   \<and> nr_get (nr_update (update_pytorch_averages (\<lambda>avg p n. avg + (p - avg) div n) (\<lambda>t. t)
          \<lparr>learn_rate = 0.001, L2 = 0, L2_is_weight_decay = False, b1 = 0.9, b2 = 0.999,
           eps = 1 / 10 ^ 8, grad_clip = None,
           averages = Some [(KStr ''pytorch_0_w'', 10 :: int)],
           nr_update = [(KStr ''pytorch_0_w'', 1)]\<rparr>
          \<lparr>model = \<lparr>state_dict = [(''w'', 4 :: int)], training = True, on_device = Cpu\<rparr>,
           shim_id = 0, cfg = MObj (), optimizer_ref = None, optim_store = []\<rparr> 1))
        (KStr ''pytorch_0_w'') = 2"
  using update_averages_per_key
    [where self = "\<lparr>model = \<lparr>state_dict = [(''w'', 4 :: int)], training = True, on_device = Cpu\<rparr>,
                    shim_id = 0, cfg = MObj (), optimizer_ref = None, optim_store = []\<rparr>"
       and name = "''w''" and param = 4
       and sgd = "\<lparr>learn_rate = 0.001, L2 = 0, L2_is_weight_decay = False, b1 = 0.9, b2 = 0.999,
                   eps = 1 / 10 ^ 8, grad_clip = None,
                   averages = Some [(KStr ''pytorch_0_w'', 10 :: int)],
                   nr_update = [(KStr ''pytorch_0_w'', 1)]\<rparr>"
       and upd = "\<lambda>avg p n. avg + (p - avg) div n" and ?t2x = "\<lambda>t. t" and init_steps = 1]
  by (auto simp: param_key_0 nr_get_def)

section \<open>The optimizer adapter: the Adam family\<close>

text \<open>
  C8 (Adam selection). With \<open>b1 = 0.9\<close>, \<open>b2 = 0.999\<close>, \<open>eps = 1e-8\<close>, \<open>L2 = 0.01\<close> and
  \<open>L2_is_weight_decay\<close> set, the adapter selects the weight-decay Adam variant with
  betas (0.9, 0.999), eps 1e-8 and weight decay 0.01, and a shim without an optimizer
  constructs that object; with the flag off and both moment coefficients nonzero it
  selects plain Adam with the optimizer's betas and eps.
\<close>

theorem adam_selection:
  fixes sgd :: "'x optimizer" and self :: "('a, 'c) shim"
  shows "(b1 sgd = 0.9 \<and> b2 sgd = 0.999 \<and> eps sgd = 1 / 10 ^ 8 \<and> L2 sgd = 0.01 \<and>
          L2_is_weight_decay sgd \<longrightarrow>
          optimizer_cls_args sgd =
            Inr (AdamW, [(''lr'', Num (learn_rate sgd)), (''weight_decay'', Num 0.01),
                         (''betas'', Betas 0.9 0.999), (''eps'', Num (1 / 10 ^ 8))])
          \<and> (optimizer_ref self = None \<longrightarrow>
               get_pytorch_optimizer sgd self =
                 (Inr (length (optim_store self)),
                  self\<lparr>optimizer_ref := Some (length (optim_store self)),
                       optim_store := optim_store self @
                         [\<lparr>opt_cls = AdamW,
                           opt_params = map fst (state_dict (model self)),
                           param_groups =
                             [[(''lr'', Num (learn_rate sgd)), (''weight_decay'', Num 0.01),
                               (''betas'', Betas 0.9 0.999),
                               (''eps'', Num (1 / 10 ^ 8))]]\<rparr>]\<rparr>)))
       \<and> (b1 sgd \<noteq> 0 \<and> b2 sgd \<noteq> 0 \<and> \<not> L2_is_weight_decay sgd \<longrightarrow>
          optimizer_cls_args sgd =
            Inr (Adam, [(''lr'', Num (learn_rate sgd)), (''weight_decay'', Num (L2 sgd)),
                        (''betas'', Betas (b1 sgd) (b2 sgd)), (''eps'', Num (eps sgd))]))"
  by (simp add: optimizer_cls_args_def get_pytorch_optimizer_def module_globals_torch Let_def)

theorem adam_selection_witness:
  "optimizer_cls_args
     \<lparr>learn_rate = 0.001, L2 = 0.01, L2_is_weight_decay = True, b1 = 0.9, b2 = 0.999,
      eps = 1 / 10 ^ 8, grad_clip = None, averages = (None :: (pykey, int) dict option),
      nr_update = []\<rparr>
   = Inr (AdamW, [(''lr'', Num 0.001), (''weight_decay'', Num 0.01),
                  (''betas'', Betas 0.9 0.999), (''eps'', Num (1 / 10 ^ 8))])
   \<and> fst (get_pytorch_optimizer
        \<lparr>learn_rate = 0.001, L2 = 0.01, L2_is_weight_decay = True, b1 = 0.9, b2 = 0.999,
         eps = 1 / 10 ^ 8, grad_clip = None, averages = (None :: (pykey, int) dict option),
         nr_update = []\<rparr>
        \<lparr>model = \<lparr>state_dict = [(''w'', 1 :: int)], training = True, on_device = Cpu\<rparr>,
         shim_id = 0, cfg = MObj (), optimizer_ref = None, optim_store = []\<rparr>) = Inr 0
   \<and> optimizer_cls_args
     \<lparr>learn_rate = 0.001, L2 = 0.01, L2_is_weight_decay = False, b1 = 0.9, b2 = 0.999,
      eps = 1 / 10 ^ 8, grad_clip = None, averages = (None :: (pykey, int) dict option),
      nr_update = []\<rparr>
   = Inr (Adam, [(''lr'', Num 0.001), (''weight_decay'', Num 0.01),
                 (''betas'', Betas 0.9 0.999), (''eps'', Num (1 / 10 ^ 8))])"
  using adam_selection
    [where sgd = "\<lparr>learn_rate = 0.001, L2 = 0.01, L2_is_weight_decay = True, b1 = 0.9,
                   b2 = 0.999, eps = 1 / 10 ^ 8, grad_clip = None,
                   averages = (None :: (pykey, int) dict option), nr_update = []\<rparr>"
       and self = "\<lparr>model = \<lparr>state_dict = [(''w'', 1 :: int)], training = True,
                    on_device = Cpu\<rparr>,
                    shim_id = 0, cfg = MObj (), optimizer_ref = None, optim_store = []\<rparr>"]
    adam_selection
    [where sgd = "\<lparr>learn_rate = 0.001, L2 = 0.01, L2_is_weight_decay = False, b1 = 0.9,
                   b2 = 0.999, eps = 1 / 10 ^ 8, grad_clip = None,
                   averages = (None :: (pykey, int) dict option), nr_update = []\<rparr>"
       and self = "\<lparr>model = \<lparr>state_dict = [(''w'', 1 :: int)], training = True,
                    on_device = Cpu\<rparr>,
                    shim_id = 0, cfg = MObj (), optimizer_ref = None, optim_store = []\<rparr>"]
  by simp

section \<open>Deserializing a malformed envelope\<close>

text \<open>
  C9 (\<^verbatim>\<open>from_bytes\<close> on an envelope with a missing field). As amended: for an envelope
  without the field \<^verbatim>\<open>config\<close>, \<^verbatim>\<open>from_bytes\<close> raises \<^verbatim>\<open>KeyError\<close> and the shim is
  unchanged; for an envelope that has \<^verbatim>\<open>config\<close> and lacks \<^verbatim>\<open>state\<close> it raises
  \<^verbatim>\<open>KeyError\<close> with the foreign model unchanged, after the shim's configuration has
  been replaced by the envelope's.
\<close>

theorem from_bytes_missing_field:
  "(msgpack_loads b = Inr msg \<and> map_of msg ''config'' = None \<longrightarrow>
      from_bytes dt cd msgpack_loads torch_load self b = (Some (KeyError ''config''), self))
   \<and> (msgpack_loads b = Inr msg \<and> map_of msg ''config'' = Some c \<and> map_of msg ''state'' = None \<longrightarrow>
      from_bytes dt cd msgpack_loads torch_load self b = (Some (KeyError ''state''), self\<lparr>cfg := c\<rparr>)
      \<and> model (snd (from_bytes dt cd msgpack_loads torch_load self b)) = model self)"
  by (simp add: from_bytes_def getitem_def)

theorem from_bytes_missing_field_witness:
  "from_bytes ''cpu'' 0 (\<lambda>b. Inr [(''state'', MBytes [4])]) (\<lambda>b loc. Inr [(''w'', 5)])
     \<lparr>model = \<lparr>state_dict = [(''w'', 1 :: int)], training = True, on_device = Cpu\<rparr>,
      shim_id = 0, cfg = MObj (0 :: nat), optimizer_ref = None, optim_store = []\<rparr> [1, 2, 3]
   = (Some (KeyError ''config''),
      \<lparr>model = \<lparr>state_dict = [(''w'', 1)], training = True, on_device = Cpu\<rparr>,
       shim_id = 0, cfg = MObj 0, optimizer_ref = None, optim_store = []\<rparr>)
   \<and> model (snd (from_bytes ''cpu'' 0 (\<lambda>b. Inr [(''config'', MObj (1 :: nat))])
        (\<lambda>b loc. Inr [(''w'', 5)])
        \<lparr>model = \<lparr>state_dict = [(''w'', 1 :: int)], training = True, on_device = Cpu\<rparr>,
         shim_id = 0, cfg = MObj 0, optimizer_ref = None, optim_store = []\<rparr> [1, 2, 3]))
     = \<lparr>state_dict = [(''w'', 1)], training = True, on_device = Cpu\<rparr>"
  using from_bytes_missing_field
    [where msgpack_loads = "\<lambda>b. Inr [(''state'', MBytes [4])]" and b = "[1, 2, 3]"
       and msg = "[(''state'', MBytes [4])]" and dt = "''cpu''" and cd = 0
       and torch_load = "\<lambda>b loc. Inr [(''w'', 5 :: int)]"
       and self = "\<lparr>model = \<lparr>state_dict = [(''w'', 1 :: int)], training = True,
                    on_device = Cpu\<rparr>,
                    shim_id = 0, cfg = MObj (0 :: nat), optimizer_ref = None, optim_store = []\<rparr>"]
    from_bytes_missing_field
    [where msgpack_loads = "\<lambda>b. Inr [(''config'', MObj (1 :: nat))]" and b = "[1, 2, 3]"
       and msg = "[(''config'', MObj (1 :: nat))]" and c = "MObj 1" and dt = "''cpu''" and cd = 0
       and torch_load = "\<lambda>b loc. Inr [(''w'', 5 :: int)]"
       and self = "\<lparr>model = \<lparr>state_dict = [(''w'', 1 :: int)], training = True,
                    on_device = Cpu\<rparr>,
                    shim_id = 0, cfg = MObj (0 :: nat), optimizer_ref = None, optim_store = []\<rparr>"]
  by simp

text \<open>
  The claim as first stated fails: with \<^verbatim>\<open>config\<close> present and \<^verbatim>\<open>state\<close> missing, the
  shim's configuration has changed (from 0 to 1 here) when the error is raised.
\<close>

theorem from_bytes_missing_state_counterexample:
  "from_bytes ''cpu'' 0 (\<lambda>b. Inr [(''config'', MObj (1 :: nat))]) (\<lambda>b loc. Inr [(''w'', 5)])
     \<lparr>model = \<lparr>state_dict = [(''w'', 1 :: int)], training = True, on_device = Cpu\<rparr>,
      shim_id = 0, cfg = MObj 0, optimizer_ref = None, optim_store = []\<rparr> [1, 2, 3]
   = (Some (KeyError ''state''),
      \<lparr>model = \<lparr>state_dict = [(''w'', 1)], training = True, on_device = Cpu\<rparr>,
       shim_id = 0, cfg = MObj 1, optimizer_ref = None, optim_store = []\<rparr>)
   \<and> MObj (1 :: nat) \<noteq> MObj 0"
  by (simp add: from_bytes_def getitem_def)

section \<open>Parameter snapshot scoping: the keys\<close>

text \<open>
  C10 (\<^verbatim>\<open>use_params\<close>, key handling). As amended: a key is considered when it has the
  attribute \<^verbatim>\<open>startswith\<close>. Keys without it (the tuple keys of native layers) are
  passed over: \<^verbatim>\<open>use_params\<close> does on the whole mapping what it does on its string
  keys alone. A key that has the attribute and is not a string (a byte string) makes
  \<^verbatim>\<open>use_params\<close> raise \<^verbatim>\<open>TypeError\<close> before anything is loaded or the block is run.
  The names collected are the string keys that start with the prefix, with every
  occurrence of the prefix replaced by the empty string, and the value of a key made of
  the prefix and a parameter name is loaded into the foreign model under that name with
  its own occurrences of the prefix removed as well; hence, when the name contains the
  prefix, under a name that differs from it.
\<close>

theorem use_params_key_handling:
  "((\<exists>kv \<in> set params. hasattr_startswith (fst kv) \<and> \<not> is_str_key (fst kv)) \<longrightarrow>
      use_params x2t self params body = (Some (TypeError ''startswith''), self))
   \<and> ((\<forall>kv \<in> set params. hasattr_startswith (fst kv) \<longrightarrow> is_str_key (fst kv)) \<longrightarrow>
      use_params x2t self (filter (\<lambda>kv. is_str_key (fst kv)) params) body
        = use_params x2t self params body
      \<and> (\<exists>sd. collect_state_dict x2t (key_prefix_of (shim_id self)) params = Inr sd
            \<and> fst ` set sd =
                (\<lambda>k. str_replace k (key_prefix_of (shim_id self)) []) `
                  {k. KStr k \<in> fst ` set params \<and> startswith k (key_prefix_of (shim_id self))}))
   \<and> use_params x2t self [(KStr (key_prefix_of (shim_id self) @ name), v)] body
       = (case load_state_dict (model self)
                 [(str_replace name (key_prefix_of (shim_id self)) [], x2t v)] of
            (Some e, m1) \<Rightarrow> (Some e, self\<lparr>model := m1\<rparr>)
          | (None, m1) \<Rightarrow>
              (case body (self\<lparr>model := m1\<rparr>) of
                 (Some e, self2) \<Rightarrow> (Some e, self2)
               | (None, self2) \<Rightarrow>
                   (case load_state_dict (model self2) (state_dict (model self)) of
                      (r, m3) \<Rightarrow> (r, self2\<lparr>model := m3\<rparr>))))
   \<and> (sublist (key_prefix_of (shim_id self)) name \<longrightarrow>
        str_replace name (key_prefix_of (shim_id self)) [] \<noteq> name
        \<and> str_replace (key_prefix_of (shim_id self) @ name) (key_prefix_of (shim_id self)) []
            \<noteq> name)"
proof -
  let ?p = "key_prefix_of (shim_id self)"
  have a: "use_params x2t self params body = (Some (TypeError ''startswith''), self)"
    if "\<exists>kv \<in> set params. hasattr_startswith (fst kv) \<and> \<not> is_str_key (fst kv)"
    using collect_loop_raises [OF that, of x2t ?p "[]"]
    by (simp add: use_params_def collect_state_dict_def)
  have b: "use_params x2t self (filter (\<lambda>kv. is_str_key (fst kv)) params) body
             = use_params x2t self params body
           \<and> (\<exists>sd. collect_state_dict x2t ?p params = Inr sd
                 \<and> fst ` set sd =
                     (\<lambda>k. str_replace k ?p []) `
                       {k. KStr k \<in> fst ` set params \<and> startswith k ?p})"
    if "\<forall>kv \<in> set params. hasattr_startswith (fst kv) \<longrightarrow> is_str_key (fst kv)"
  proof -
    from collect_loop_collects [OF that, of x2t ?p "[]"] obtain sd where
      l: "collect_loop x2t ?p [] params = Inr sd"
      and f: "collect_loop x2t ?p [] (filter (\<lambda>kv. is_str_key (fst kv)) params) = Inr sd"
      and n: "fst ` set sd =
                (\<lambda>k. str_replace k ?p []) ` {k. KStr k \<in> fst ` set params \<and> startswith k ?p}"
      by auto
    show ?thesis
      using l f n by (simp add: use_params_def collect_state_dict_def)
  qed
  have eq: "str_replace (?p @ name) ?p [] = str_replace name ?p []"
    by (rule str_replace_prefixed(1) [OF key_prefix_nonempty])
  have c: "use_params x2t self [(KStr (?p @ name), v)] body
       = (case load_state_dict (model self) [(str_replace name ?p [], x2t v)] of
            (Some e, m1) \<Rightarrow> (Some e, self\<lparr>model := m1\<rparr>)
          | (None, m1) \<Rightarrow>
              (case body (self\<lparr>model := m1\<rparr>) of
                 (Some e, self2) \<Rightarrow> (Some e, self2)
               | (None, self2) \<Rightarrow>
                   (case load_state_dict (model self2) (state_dict (model self)) of
                      (r, m3) \<Rightarrow> (r, self2\<lparr>model := m3\<rparr>))))"
    by (simp add: use_params_def collect_single eq)
  have d: "str_replace name ?p [] \<noteq> name \<and> str_replace (?p @ name) ?p [] \<noteq> name"
    if "sublist ?p name"
    using str_replace_prefixed(2) [OF key_prefix_nonempty, of "shim_id self" name] that
    by (simp add: eq)
  show ?thesis
    using a b c d by blast
qed

theorem use_params_key_handling_witness:
  "use_params (\<lambda>x :: int. x)
     \<lparr>model = \<lparr>state_dict = [(''a.w'', 1 :: int)], training = True, on_device = Cpu\<rparr>,
      shim_id = 1, cfg = MObj (), optimizer_ref = None, optim_store = []\<rparr>
     [(KStr ''pytorch_1_a.w'', 2), (KBytes [112, 121], 3)]
     (\<lambda>s. (None, s))
   = (Some (TypeError ''startswith''),
      \<lparr>model = \<lparr>state_dict = [(''a.w'', 1)], training = True, on_device = Cpu\<rparr>,
       shim_id = 1, cfg = MObj (), optimizer_ref = None, optim_store = []\<rparr>)
   \<and> use_params (\<lambda>x :: int. x)
     \<lparr>model = \<lparr>state_dict = [(''a.w'', 1 :: int)], training = True, on_device = Cpu\<rparr>,
      shim_id = 1, cfg = MObj (), optimizer_ref = None, optim_store = []\<rparr>
     [(KStr ''pytorch_1_a.w'', 2)]
     (\<lambda>s. (Some (Raised ''stop''), s))
   = use_params (\<lambda>x :: int. x)
     \<lparr>model = \<lparr>state_dict = [(''a.w'', 1 :: int)], training = True, on_device = Cpu\<rparr>,
      shim_id = 1, cfg = MObj (), optimizer_ref = None, optim_store = []\<rparr>
     [(KTuple 3 ''W'', 0), (KStr ''pytorch_1_a.w'', 2)]
     (\<lambda>s. (Some (Raised ''stop''), s))
   \<and> sublist (key_prefix_of 1) ''a.pytorch_1_w''
   \<and> str_replace (key_prefix_of 1 @ ''a.pytorch_1_w'') (key_prefix_of 1) [] \<noteq> ''a.pytorch_1_w''"
proof -
  let ?self = "\<lparr>model = \<lparr>state_dict = [(''a.w'', 1 :: int)], training = True, on_device = Cpu\<rparr>,
                shim_id = 1, cfg = MObj (), optimizer_ref = None, optim_store = []\<rparr>"
  have s: "sublist (key_prefix_of 1) ''a.pytorch_1_w''"
    by (simp add: key_prefix_of_1 sublist_Cons_right)
  have "use_params (\<lambda>x :: int. x) ?self [(KStr ''pytorch_1_a.w'', 2), (KBytes [112, 121], 3)]
          (\<lambda>s. (None, s)) = (Some (TypeError ''startswith''), ?self)"
    using use_params_key_handling
      [where self = ?self and ?x2t = "\<lambda>x :: int. x" and body = "\<lambda>s. (None, s)"
         and params = "[(KStr ''pytorch_1_a.w'', 2), (KBytes [112, 121], 3)]"
         and name = "''a.pytorch_1_w''" and v = 0]
    by simp
  moreover have "use_params (\<lambda>x :: int. x) ?self [(KStr ''pytorch_1_a.w'', 2)]
          (\<lambda>s. (Some (Raised ''stop''), s))
        = use_params (\<lambda>x :: int. x) ?self [(KTuple 3 ''W'', 0), (KStr ''pytorch_1_a.w'', 2)]
          (\<lambda>s. (Some (Raised ''stop''), s))"
    using use_params_key_handling
      [where self = ?self and ?x2t = "\<lambda>x :: int. x"
         and body = "\<lambda>s. (Some (Raised ''stop''), s)"
         and params = "[(KTuple 3 ''W'', 0), (KStr ''pytorch_1_a.w'', 2)]"
         and name = "''a.pytorch_1_w''" and v = 0]
    by simp
  moreover have "str_replace (key_prefix_of 1 @ ''a.pytorch_1_w'') (key_prefix_of 1) []
                   \<noteq> ''a.pytorch_1_w''"
    using s use_params_key_handling
      [where self = ?self and ?x2t = "\<lambda>x :: int. x" and body = "\<lambda>s. (None, s)"
         and params = "[]" and name = "''a.pytorch_1_w''" and v = 0]
    by simp
  ultimately show ?thesis
    using s by blast
qed

text \<open>
  The claim as first stated fails: a key that is not a string is not always passed
  over. With a byte-string key in the mapping \<^verbatim>\<open>use_params\<close> raises \<^verbatim>\<open>TypeError\<close> and
  the block is not run, where passing over the key would run the block against the live
  parameters, as the empty mapping does.
\<close>

theorem use_params_bytes_key_counterexample:
  "use_params (\<lambda>x :: int. x)
     \<lparr>model = \<lparr>state_dict = [(''w'', 1 :: int)], training = True, on_device = Cpu\<rparr>,
      shim_id = 0, cfg = MObj (), optimizer_ref = None, optim_store = []\<rparr>
     [(KBytes [112, 121], 2)]
     (\<lambda>s. (None, s\<lparr>cfg := MObj ()\<rparr>))
   = (Some (TypeError ''startswith''),
      \<lparr>model = \<lparr>state_dict = [(''w'', 1)], training = True, on_device = Cpu\<rparr>,
       shim_id = 0, cfg = MObj (), optimizer_ref = None, optim_store = []\<rparr>)
   \<and> use_params (\<lambda>x :: int. x)
     \<lparr>model = \<lparr>state_dict = [(''w'', 1 :: int)], training = True, on_device = Cpu\<rparr>,
      shim_id = 0, cfg = MObj (), optimizer_ref = None, optim_store = []\<rparr>
     []
     (\<lambda>s. (None, s\<lparr>cfg := MObj ()\<rparr>))
   = (None,
      \<lparr>model = \<lparr>state_dict = [(''w'', 1)], training = True, on_device = Cpu\<rparr>,
       shim_id = 0, cfg = MObj (), optimizer_ref = None, optim_store = []\<rparr>)
   \<and> \<not> is_str_key (KBytes [112, 121])"
  by (simp add: use_params_def collect_state_dict_def collect_step_def)

end
